theory Spec2Isabelle
  imports Complex_Main
begin

section \<open>Values, formatted text and errors\<close>

text \<open>
  The strategy template of \<^verbatim>\<open>src/examples/strategy_example.py\<close> is embedded as
  state-passing functions on a record of the object's attributes. Python floats are
  idealised as reals (rounding is not modelled). An f-string is kept as the list of its
  pieces, so that the rendering of a number is never guessed: \<open>Lit s\<close> is a piece of
  text, \<open>Flt x\<close> and \<open>Intg n\<close> stand for Python's rendering of a float and of an integer.
  The empty list is the empty string.
\<close>

datatype frag = Lit string | Flt real | Intg int

type_synonym fstring = "frag list"

text \<open>What \<^verbatim>\<open>print\<close> wrote during a call: the lines, oldest first.\<close>

type_synonym printed = "fstring list"

datatype error = KeyError string

type_synonym datetime = int

section \<open>The dictionaries handed to the hooks\<close>

record tick =
  symbol :: string
  exchange :: string
  datetime :: datetime
  last_price :: real
  volume :: real
  bid_price_1 :: real
  ask_price_1 :: real

record bar =
  symbol :: string
  exchange :: string
  datetime :: datetime
  interval :: string
  "open" :: real
  high :: real
  low :: real
  close :: real
  volume :: real

record order =
  orderid :: string
  symbol :: string
  direction :: string
  offset :: string
  price :: real
  volume :: real
  traded :: real
  status :: string

text \<open>
  A trade carries the keys of the docstring of \<^verbatim>\<open>on_trade\<close> and the key
  \<^verbatim>\<open>'exchange'\<close>, which the body reads.
\<close>

record trade =
  tradeid :: string
  orderid :: string
  symbol :: string
  exchange :: string
  direction :: string
  offset :: string
  price :: real
  volume :: real
  datetime :: datetime

section \<open>CtaTemplate\<close>

record cta_template =
  strategy_name :: string
  vt_symbols :: "string list"
  strategy_type :: string
  inited :: bool
  trading :: bool
  positions :: "string \<rightharpoonup> real"
  parameters :: "string \<rightharpoonup> real"
  variables :: "string \<rightharpoonup> real"

text \<open>\<^verbatim>\<open>__init__\<close>: the loop stores 0.0 under every subscribed symbol, in order.\<close>

definition CtaTemplate_init :: "string \<Rightarrow> string list \<Rightarrow> string \<Rightarrow> cta_template" where
  "CtaTemplate_init name syms ty =
     \<lparr>strategy_name = name, vt_symbols = syms, strategy_type = ty,
      inited = False, trading = False,
      positions = foldl (\<lambda>m sym. m(sym \<mapsto> 0)) Map.empty syms,
      parameters = Map.empty, variables = Map.empty\<rparr>"

text \<open>\<^verbatim>\<open>write_log\<close> prints one line, \<^verbatim>\<open>f"[{self.strategy_name}] {msg}"\<close>.\<close>

definition write_log :: "'a cta_template_scheme \<Rightarrow> fstring \<Rightarrow> printed" where
  "write_log s msg = [[Lit ''['', Lit (strategy_name s), Lit ''] ''] @ msg]"

text \<open>The lifecycle hooks of the template only write a log line.\<close>

definition on_init :: "'a cta_template_scheme \<Rightarrow> 'a cta_template_scheme \<times> printed" where
  "on_init s = (s, write_log s [Lit ''Strategy initialized''])"

definition on_start :: "'a cta_template_scheme \<Rightarrow> 'a cta_template_scheme \<times> printed" where
  "on_start s = (s, write_log s [Lit ''Strategy started''])"

definition on_stop :: "'a cta_template_scheme \<Rightarrow> 'a cta_template_scheme \<times> printed" where
  "on_stop s = (s, write_log s [Lit ''Strategy stopped''])"

text \<open>The data hooks and \<^verbatim>\<open>on_order\<close> are \<^verbatim>\<open>pass\<close>.\<close>

definition on_tick :: "'a cta_template_scheme \<Rightarrow> tick \<Rightarrow> 'a cta_template_scheme \<times> printed" where
  "on_tick s t = (s, [])"

definition on_bar :: "'a cta_template_scheme \<Rightarrow> bar \<Rightarrow> 'a cta_template_scheme \<times> printed" where
  "on_bar s b = (s, [])"

definition on_bars :: "'a cta_template_scheme \<Rightarrow> (string \<rightharpoonup> bar) \<Rightarrow> 'a cta_template_scheme \<times> printed" where
  "on_bars s bs = (s, [])"

definition on_order :: "'a cta_template_scheme \<Rightarrow> order \<Rightarrow> 'a cta_template_scheme \<times> printed" where
  "on_order s ord = (s, [])"

text \<open>
  \<^verbatim>\<open>self.positions[k] += v\<close> and \<^verbatim>\<open>self.positions[k] -= v\<close> read the entry first:
  a key that is not in the dictionary raises \<^verbatim>\<open>KeyError\<close> and nothing is stored.
\<close>

definition positions_iadd ::
  "'a cta_template_scheme \<Rightarrow> string \<Rightarrow> real \<Rightarrow> error + 'a cta_template_scheme" where
  "positions_iadd s k v =
     (case positions s k of
        None \<Rightarrow> Inl (KeyError k)
      | Some p \<Rightarrow> Inr (s\<lparr>positions := (positions s)(k \<mapsto> p + v)\<rparr>))"

definition positions_isub ::
  "'a cta_template_scheme \<Rightarrow> string \<Rightarrow> real \<Rightarrow> error + 'a cta_template_scheme" where
  "positions_isub s k v =
     (case positions s k of
        None \<Rightarrow> Inl (KeyError k)
      | Some p \<Rightarrow> Inr (s\<lparr>positions := (positions s)(k \<mapsto> p - v)\<rparr>))"

definition on_trade :: "'a cta_template_scheme \<Rightarrow> trade \<Rightarrow> error + 'a cta_template_scheme" where
  "on_trade s t =
     (let vt_symbol = trade.symbol t @ ''.'' @ trade.exchange t in
      if trade.direction t = ''long'' then
        (if trade.offset t = ''open'' then positions_iadd s vt_symbol (trade.volume t)
         else positions_isub s vt_symbol (trade.volume t))
      else
        (if trade.offset t = ''open'' then positions_isub s vt_symbol (trade.volume t)
         else positions_iadd s vt_symbol (trade.volume t)))"

text \<open>
  \<^verbatim>\<open>_send_order\<close> writes the log line and returns \<^verbatim>\<open>f"order_{datetime.now().timestamp()}"\<close>.
  The reading of the clock is the argument \<open>now\<close>. The calls return the order id, the
  strategy and what was printed.
\<close>

definition send_order ::
  "real \<Rightarrow> 'a cta_template_scheme \<Rightarrow> string \<Rightarrow> real \<Rightarrow> real \<Rightarrow> string \<Rightarrow> string \<Rightarrow> bool
     \<Rightarrow> fstring \<times> 'a cta_template_scheme \<times> printed" where
  "send_order now s vt_symbol pr vol dir ofs lock =
     ([Lit ''order_'', Flt now], s,
      write_log s [Lit ''Send order: '', Lit vt_symbol, Lit '' '', Lit dir, Lit '' '', Lit ofs,
                   Lit '' @ '', Flt pr, Lit '' x'', Flt vol])"

definition buy ::
  "real \<Rightarrow> 'a cta_template_scheme \<Rightarrow> string \<Rightarrow> real \<Rightarrow> real \<Rightarrow> bool
     \<Rightarrow> fstring \<times> 'a cta_template_scheme \<times> printed" where
  "buy now s vt_symbol pr vol lock =
     (if \<not> trading s then ([], s, [])
      else send_order now s vt_symbol pr vol ''long'' ''open'' lock)"

definition sell ::
  "real \<Rightarrow> 'a cta_template_scheme \<Rightarrow> string \<Rightarrow> real \<Rightarrow> real \<Rightarrow> bool
     \<Rightarrow> fstring \<times> 'a cta_template_scheme \<times> printed" where
  "sell now s vt_symbol pr vol lock =
     (if \<not> trading s then ([], s, [])
      else (let ofs = (if strategy_type s = ''futures'' then ''close'' else ''open'')
            in send_order now s vt_symbol pr vol ''short'' ofs lock))"

definition short ::
  "real \<Rightarrow> 'a cta_template_scheme \<Rightarrow> string \<Rightarrow> real \<Rightarrow> real \<Rightarrow> bool
     \<Rightarrow> fstring \<times> 'a cta_template_scheme \<times> printed" where
  "short now s vt_symbol pr vol lock =
     (if strategy_type s = ''spot''
      then ([], s, write_log s [Lit ''Short not supported for spot trading''])
      else if \<not> trading s then ([], s, [])
      else send_order now s vt_symbol pr vol ''short'' ''open'' lock)"

definition cover ::
  "real \<Rightarrow> 'a cta_template_scheme \<Rightarrow> string \<Rightarrow> real \<Rightarrow> real \<Rightarrow> bool
     \<Rightarrow> fstring \<times> 'a cta_template_scheme \<times> printed" where
  "cover now s vt_symbol pr vol lock =
     (if strategy_type s = ''spot''
      then ([], s, write_log s [Lit ''Cover not supported for spot trading''])
      else if \<not> trading s then ([], s, [])
      else send_order now s vt_symbol pr vol ''long'' ''close'' lock)"

definition cancel_order :: "'a cta_template_scheme \<Rightarrow> fstring \<Rightarrow> 'a cta_template_scheme \<times> printed" where
  "cancel_order s vt_orderid =
     (if \<not> trading s then (s, [])
      else (s, write_log s (Lit ''Cancel order: '' # vt_orderid)))"

definition cancel_all :: "'a cta_template_scheme \<Rightarrow> 'a cta_template_scheme \<times> printed" where
  "cancel_all s =
     (if \<not> trading s then (s, [])
      else (s, write_log s [Lit ''Cancel all orders'']))"

text \<open>\<^verbatim>\<open>get_pos\<close> is \<^verbatim>\<open>self.positions.get(vt_symbol, 0.0)\<close>.\<close>

definition get_pos :: "'a cta_template_scheme \<Rightarrow> string \<Rightarrow> real" where
  "get_pos s vt_symbol = (case positions s vt_symbol of None \<Rightarrow> 0 | Some p \<Rightarrow> p)"

definition load_bars :: "'a cta_template_scheme \<Rightarrow> int \<Rightarrow> string \<Rightarrow> 'a cta_template_scheme \<times> printed" where
  "load_bars s days ivl =
     (s, write_log s [Lit ''Loading '', Intg days, Lit '' days of '', Lit ivl, Lit '' bars''])"

definition put_event :: "'a cta_template_scheme \<Rightarrow> 'a cta_template_scheme \<times> printed" where
  "put_event s = (s, [])"

section \<open>The concrete strategies: lifecycle hooks\<close>

text \<open>
  \<^verbatim>\<open>DoubleMaStrategy\<close> and \<^verbatim>\<open>GridStrategy\<close> extend the template with their own
  attributes and override the lifecycle hooks; both are built with
  \<^verbatim>\<open>strategy_type="spot"\<close>.
\<close>

record double_ma_strategy = cta_template +
  fast_window :: int
  slow_window :: int
  fixed_size :: real
  fast_ma :: real
  slow_ma :: real
  ma_trend :: int
  bars :: "bar list"

definition DoubleMaStrategy_init ::
  "string \<Rightarrow> string list \<Rightarrow> int \<Rightarrow> int \<Rightarrow> real \<Rightarrow> double_ma_strategy" where
  "DoubleMaStrategy_init name syms fw sw fs =
     (cta_template.extend (CtaTemplate_init name syms ''spot'')
        (double_ma_strategy.fields fw sw fs 0 0 0 []))
       \<lparr>parameters := [''fast_window'' \<mapsto> of_int fw, ''slow_window'' \<mapsto> of_int sw,
                       ''fixed_size'' \<mapsto> fs],
        variables := [''fast_ma'' \<mapsto> 0, ''slow_ma'' \<mapsto> 0, ''ma_trend'' \<mapsto> 0]\<rparr>"

definition DoubleMaStrategy_on_init ::
  "'a double_ma_strategy_scheme \<Rightarrow> 'a double_ma_strategy_scheme \<times> printed" where
  "DoubleMaStrategy_on_init s =
     (let out1 = write_log s [Lit ''Initializing DoubleMaStrategy''];
          (s1, out2) = load_bars s 10 ''1m''
      in (s1\<lparr>inited := True\<rparr>, out1 @ out2))"

definition DoubleMaStrategy_on_start ::
  "'a double_ma_strategy_scheme \<Rightarrow> 'a double_ma_strategy_scheme \<times> printed" where
  "DoubleMaStrategy_on_start s =
     (s\<lparr>trading := True\<rparr>, write_log s [Lit ''Starting DoubleMaStrategy''])"

definition DoubleMaStrategy_on_stop ::
  "'a double_ma_strategy_scheme \<Rightarrow> 'a double_ma_strategy_scheme \<times> printed" where
  "DoubleMaStrategy_on_stop s =
     (s\<lparr>trading := False\<rparr>, write_log s [Lit ''Stopping DoubleMaStrategy''])"

text \<open>The grid's order tables are keyed by \<^verbatim>\<open>str(price)\<close>.\<close>

record grid_strategy = cta_template +
  grid_size :: real
  grid_num :: int
  order_size :: real
  buy_orders :: "fstring \<rightharpoonup> fstring"
  sell_orders :: "fstring \<rightharpoonup> fstring"
  last_price :: real

definition GridStrategy_init ::
  "string \<Rightarrow> string list \<Rightarrow> real \<Rightarrow> int \<Rightarrow> real \<Rightarrow> grid_strategy" where
  "GridStrategy_init name syms gs gn os =
     (cta_template.extend (CtaTemplate_init name syms ''spot'')
        (grid_strategy.fields gs gn os Map.empty Map.empty 0))
       \<lparr>parameters := [''grid_size'' \<mapsto> gs, ''grid_num'' \<mapsto> of_int gn, ''order_size'' \<mapsto> os]\<rparr>"

definition GridStrategy_on_init ::
  "'a grid_strategy_scheme \<Rightarrow> 'a grid_strategy_scheme \<times> printed" where
  "GridStrategy_on_init s =
     (s\<lparr>inited := True\<rparr>, write_log s [Lit ''Initializing GridStrategy''])"

definition GridStrategy_on_start ::
  "'a grid_strategy_scheme \<Rightarrow> 'a grid_strategy_scheme \<times> printed" where
  "GridStrategy_on_start s =
     (s\<lparr>trading := True\<rparr>, write_log s [Lit ''Starting GridStrategy''])"

text \<open>\<^verbatim>\<open>on_stop\<close> of the grid cancels all orders while the flag still has its old value.\<close>

definition GridStrategy_on_stop ::
  "'a grid_strategy_scheme \<Rightarrow> 'a grid_strategy_scheme \<times> printed" where
  "GridStrategy_on_stop s =
     (let out1 = write_log s [Lit ''Stopping GridStrategy''];
          (s1, out2) = cancel_all s
      in (s1\<lparr>trading := False\<rparr>, out1 @ out2))"

section \<open>Dispatching a sequence of trades\<close>

text \<open>
  The engine hands the trades to \<^verbatim>\<open>on_trade\<close> one after the other; an exception
  raised by a call ends the dispatch.
\<close>

fun dispatch_trades ::
  "'a cta_template_scheme \<Rightarrow> trade list \<Rightarrow> error + 'a cta_template_scheme" where
  "dispatch_trades s [] = Inr s"
| "dispatch_trades s (t # ts) =
     (case on_trade s t of Inl e \<Rightarrow> Inl e | Inr s' \<Rightarrow> dispatch_trades s' ts)"

text \<open>
  The side/offset rule of the data model, in the spec's words: \<open>+volume\<close> for
  (buy, open) and (sell, close), \<open>-volume\<close> for (sell, open) and (buy, close). A buy
  is direction \<^verbatim>\<open>'long'\<close>; the code takes every other direction as a sell and every
  offset other than \<^verbatim>\<open>'open'\<close> as a close.
\<close>

definition vt_symbol_of :: "trade \<Rightarrow> string" where
  "vt_symbol_of t = trade.symbol t @ ''.'' @ trade.exchange t"

definition signed_volume :: "trade \<Rightarrow> real" where
  "signed_volume t =
     (if trade.direction t = ''long''
      then (if trade.offset t = ''open'' then trade.volume t else - trade.volume t)
      else (if trade.offset t = ''open'' then - trade.volume t else trade.volume t))"

definition signed_sum :: "string \<Rightarrow> trade list \<Rightarrow> real" where
  "signed_sum k ts = sum_list (map signed_volume (filter (\<lambda>t. vt_symbol_of t = k) ts))"

text \<open>
  Inputs used below: a new strategy subscribed to \<^verbatim>\<open>BTCUSDT.BINANCE\<close> only, trades on
  the exchange \<^verbatim>\<open>BINANCE\<close>, and a spot and a futures strategy with trading enabled.
\<close>

definition btc_strategy :: cta_template where
  "btc_strategy = CtaTemplate_init ''S'' [''BTCUSDT.BINANCE''] ''spot''"

definition mk_trade :: "string \<Rightarrow> string \<Rightarrow> string \<Rightarrow> real \<Rightarrow> trade" where
  "mk_trade smb dir ofs vol =
     \<lparr>tradeid = ''t1'', orderid = ''o1'', symbol = smb, exchange = ''BINANCE'',
      direction = dir, offset = ofs, price = 50000, volume = vol, datetime = 0\<rparr>"

definition spot_trading :: cta_template where
  "spot_trading = (CtaTemplate_init ''S'' [''BTCUSDT.BINANCE''] ''spot'')\<lparr>trading := True\<rparr>"

definition futures_trading :: cta_template where
  "futures_trading = (CtaTemplate_init ''F'' [''BTCUSDT.BINANCE''] ''futures'')\<lparr>trading := True\<rparr>"

section \<open>Order Book and Matching Model\<close>

text \<open>
  The backtesting engine (\<^verbatim>\<open>PyBacktestingEngine\<close>) is only called by the scripts under
  \<^verbatim>\<open>src/\<close>; its replay loop and matching are not among the source files. The
  definitions of this section follow sections 3, 4.2 and 4.3 of the spec. The strategy is
  an external collaborator: what it submits while a data point is dispatched
  (\<^verbatim>\<open>on_bar\<close>, \<^verbatim>\<open>on_order\<close>, \<^verbatim>\<open>on_trade\<close>) is an input of that data point. Cancelling
  is not modelled.
\<close>

datatype side = Buy | Sell

datatype offset_kind = Open | Close

datatype order_status = Submitted | PartiallyFilled | Filled | Cancelled | Rejected

datatype rejection = TradingDisabled | NonPositiveVolume | UnsupportedOffset

datatype run_error = EmptySeries | NonMonotonicTimestamps

text \<open>Modelled from the spec: the arguments of \<^verbatim>\<open>submit(symbol, side, offset, price, volume)\<close>.\<close>

record request =
  rq_symbol :: string
  rq_side :: side
  rq_offset :: offset_kind
  rq_price :: real
  rq_volume :: real

text \<open>
  Modelled from the spec: the Order of the data model, with the creation timestamp that
  the no-look-ahead property speaks of.
\<close>

record engine_order =
  bo_id :: nat
  bo_symbol :: string
  bo_side :: side
  bo_offset :: offset_kind
  bo_price :: real
  bo_volume :: real
  bo_filled :: real
  bo_status :: order_status
  bo_created :: datetime

text \<open>Modelled from the spec: the Trade of the data model; it names its order by id.\<close>

record engine_trade =
  tr_id :: nat
  tr_order :: nat
  tr_symbol :: string
  tr_side :: side
  tr_offset :: offset_kind
  tr_price :: real
  tr_volume :: real
  tr_timestamp :: datetime

text \<open>
  Modelled from the spec: one timestamp group of the Market Replay Feed, that is the
  bars of all symbols at one timestamp, with the requests the strategy submits while the
  group is dispatched.
\<close>

record data_point =
  dp_timestamp :: datetime
  dp_bars :: "bar list"
  dp_requests :: "request list"

text \<open>Modelled from the spec: the state of one run, with the Order Book and the trade log.\<close>

record engine =
  e_trading :: bool
  e_spot_only :: bool
  book :: "engine_order list"
  trade_log :: "engine_trade list"
  next_id :: nat

text \<open>
  Modelled from the spec: \<^verbatim>\<open>submit\<close> of section 4.1, which returns a new order id or a
  rejection reason (trading disabled, non-positive volume, short/close offset on a
  spot-only instrument). A rejected request adds nothing to the book; an accepted one is
  created at the timestamp of the data point being dispatched.
\<close>

definition submit :: "datetime \<Rightarrow> engine \<Rightarrow> request \<Rightarrow> (rejection + nat) \<times> engine" where
  "submit t e r =
     (if \<not> e_trading e then (Inl TradingDisabled, e)
      else if rq_volume r \<le> 0 then (Inl NonPositiveVolume, e)
      else if e_spot_only e \<and> ((rq_side r = Sell \<and> rq_offset r = Open) \<or>
                               (rq_side r = Buy \<and> rq_offset r = Close))
        then (Inl UnsupportedOffset, e)
      else (Inr (next_id e),
            e\<lparr>book := book e @
                 [\<lparr>bo_id = next_id e, bo_symbol = rq_symbol r, bo_side = rq_side r,
                   bo_offset = rq_offset r, bo_price = rq_price r, bo_volume = rq_volume r,
                   bo_filled = 0, bo_status = Submitted, bo_created = t\<rparr>],
              next_id := Suc (next_id e)\<rparr>))"

text \<open>
  Modelled from the spec: the fill rule of section 4.3. A buy fills at
  \<open>min(order.price, bar.high)\<close> if \<open>bar.low \<le> order.price\<close>, with the slippage added
  against the strategy; the spec states the rule for a buy, and the rule for a sell is
  taken as its mirror image (sells fill slippage-lower).
\<close>

definition fill_price :: "real \<Rightarrow> engine_order \<Rightarrow> bar \<Rightarrow> real option" where
  "fill_price slippage ord b =
     (case bo_side ord of
        Buy \<Rightarrow> if bar.low b \<le> bo_price ord
               then Some (min (bo_price ord) (bar.high b) + slippage) else None
      | Sell \<Rightarrow> if bo_price ord \<le> bar.high b
               then Some (max (bo_price ord) (bar.low b) - slippage) else None)"

text \<open>
  Modelled from the spec: the evaluation of one order of the book against the bars of a
  data point. An eligible order either fills completely, producing exactly one Trade
  stamped with the data point's timestamp, or remains pending.
\<close>

definition match_order ::
  "real \<Rightarrow> datetime \<Rightarrow> bar list \<Rightarrow> engine_order \<Rightarrow> engine_order \<times> engine_trade option" where
  "match_order slippage t bs ord =
     (if bo_status ord \<noteq> Submitted then (ord, None)
      else case find (\<lambda>b. bar.symbol b = bo_symbol ord) bs of
             None \<Rightarrow> (ord, None)
           | Some b \<Rightarrow>
               (case fill_price slippage ord b of
                  None \<Rightarrow> (ord, None)
                | Some p \<Rightarrow>
                    (ord\<lparr>bo_filled := bo_volume ord, bo_status := Filled\<rparr>,
                     Some \<lparr>tr_id = bo_id ord, tr_order = bo_id ord, tr_symbol = bo_symbol ord,
                           tr_side = bo_side ord, tr_offset = bo_offset ord, tr_price = p,
                           tr_volume = bo_volume ord, tr_timestamp = t\<rparr>)))"

text \<open>
  Modelled from the spec: the matching of a data point. It evaluates the orders that
  were in the book before the data point was dispatched.
\<close>

definition matched :: "real \<Rightarrow> engine \<Rightarrow> data_point \<Rightarrow> engine" where
  "matched slippage e d =
     (let rs = map (match_order slippage (dp_timestamp d) (dp_bars d)) (book e)
      in e\<lparr>book := map fst rs, trade_log := trade_log e @ List.map_filter snd rs\<rparr>)"

text \<open>Modelled from the spec: the requests of a data point, submitted in order.\<close>

definition submit_all :: "datetime \<Rightarrow> engine \<Rightarrow> request list \<Rightarrow> engine" where
  "submit_all t e rs = foldl (\<lambda>e' r. snd (submit t e' r)) e rs"

text \<open>
  Modelled from the spec: one replay step. An order submitted during the dispatch of bar
  \<open>t\<close> becomes eligible for matching starting at bar \<open>t+1\<close>: the orders of this data
  point enter the book behind its matching.
\<close>

definition step :: "real \<Rightarrow> engine \<Rightarrow> data_point \<Rightarrow> engine" where
  "step slippage e d = submit_all (dp_timestamp d) (matched slippage e d) (dp_requests d)"

text \<open>
  Modelled from the spec: at the end of the replay the orders still pending are
  force-cancelled and contribute no trade.
\<close>

definition cancel_pending :: "engine_order \<Rightarrow> engine_order" where
  "cancel_pending ord =
     (if bo_status ord = Submitted then ord\<lparr>bo_status := Cancelled\<rparr> else ord)"

definition force_cancel :: "engine \<Rightarrow> engine" where
  "force_cancel e = e\<lparr>book := map cancel_pending (book e)\<rparr>"

text \<open>Modelled from the spec: a run starts with an empty book and order submission enabled.\<close>

definition start_engine :: "bool \<Rightarrow> engine" where
  "start_engine spot =
     \<lparr>e_trading = True, e_spot_only = spot, book = [], trade_log = [], next_id = 0\<rparr>"

text \<open>
  Modelled from the spec: the run. The feed fails fast on an empty series and on
  timestamps that are not strictly increasing; otherwise the data points are replayed in
  order.
\<close>

definition run_backtest :: "real \<Rightarrow> bool \<Rightarrow> data_point list \<Rightarrow> run_error + engine" where
  "run_backtest slippage spot ds =
     (if ds = [] then Inl EmptySeries
      else if \<not> sorted_wrt (<) (map dp_timestamp ds) then Inl NonMonotonicTimestamps
      else Inr (force_cancel (foldl (step slippage) (start_engine spot) ds)))"

text \<open>A run of two bars: a buy at 100 submitted at the first bar, whose range holds 100.\<close>

definition mk_bar :: "datetime \<Rightarrow> real \<Rightarrow> real \<Rightarrow> bar" where
  "mk_bar t lo hi =
     \<lparr>bar.symbol = ''BTCUSDT'', bar.exchange = ''BINANCE'', bar.datetime = t,
      interval = ''1m'', open = lo, high = hi, low = lo, close = hi, bar.volume = 100\<rparr>"

definition demo_feed :: "data_point list" where
  "demo_feed =
     [\<lparr>dp_timestamp = 1, dp_bars = [mk_bar 1 90 110],
       dp_requests = [\<lparr>rq_symbol = ''BTCUSDT'', rq_side = Buy, rq_offset = Open,
                        rq_price = 100, rq_volume = 1\<rparr>]\<rparr>,
      \<lparr>dp_timestamp = 2, dp_bars = [mk_bar 2 95 105], dp_requests = []\<rparr>]"

definition demo_order :: engine_order where
  "demo_order =
     \<lparr>bo_id = 0, bo_symbol = ''BTCUSDT'', bo_side = Buy, bo_offset = Open, bo_price = 100,
      bo_volume = 1, bo_filled = 1, bo_status = Filled, bo_created = 1\<rparr>"

definition demo_trade :: engine_trade where
  "demo_trade =
     \<lparr>tr_id = 0, tr_order = 0, tr_symbol = ''BTCUSDT'', tr_side = Buy, tr_offset = Open,
      tr_price = 100, tr_volume = 1, tr_timestamp = 2\<rparr>"

definition demo_result :: engine where
  "demo_result =
     \<lparr>e_trading = True, e_spot_only = True, book = [demo_order], trade_log = [demo_trade],
      next_id = 1\<rparr>"

text \<open>The invariants of the replay, used in the proof of the no-look-ahead property.\<close>

definition book_inv :: "engine \<Rightarrow> bool" where
  "book_inv e \<longleftrightarrow>
     distinct (map bo_id (book e)) \<and> (\<forall>ord \<in> set (book e). bo_id ord < next_id e)"

definition trades_inv :: "engine \<Rightarrow> bool" where
  "trades_inv e \<longleftrightarrow>
     (\<forall>f \<in> set (trade_log e).
        \<exists>ord \<in> set (book e). bo_id ord = tr_order f \<and> bo_created ord < tr_timestamp f)"

definition created_before :: "datetime \<Rightarrow> engine \<Rightarrow> bool" where
  "created_before t e \<longleftrightarrow> (\<forall>ord \<in> set (book e). bo_created ord < t)"

definition created_upto :: "datetime \<Rightarrow> engine \<Rightarrow> bool" where
  "created_upto t e \<longleftrightarrow> (\<forall>ord \<in> set (book e). bo_created ord \<le> t)"

section \<open>Statistics Calculator: the Sharpe ratio\<close>

text \<open>
  The statistics are computed inside the engine (\<^verbatim>\<open>engine.calculate_statistics\<close>),
  which is not among the source files; the scripts only print \<^verbatim>\<open>stats.sharpe_ratio\<close>.
  The definitions follow section 4.5 of the spec, over the reals.
\<close>

text \<open>Modelled from the spec: the mean of the daily return series.\<close>

definition mean :: "real list \<Rightarrow> real" where
  "mean xs = sum_list xs / real (length xs)"

text \<open>
  Modelled from the spec: the variance of the daily returns, sample and not population:
  the squared deviations are divided by \<open>n - 1\<close>.
\<close>

definition sample_variance :: "real list \<Rightarrow> real" where
  "sample_variance xs = (\<Sum>x\<leftarrow>xs. (x - mean xs)\<^sup>2) / (real (length xs) - 1)"

text \<open>Modelled from the spec: the standard deviation of the daily returns.\<close>

definition stdev :: "real list \<Rightarrow> real" where
  "stdev xs = sqrt (sample_variance xs)"

text \<open>
  Modelled from the spec: Sharpe ratio = \<open>mean(daily_returns) / stdev(daily_returns) *
  sqrt(252)\<close>, defined as zero when the standard deviation is zero. The ratio is a
  number for every series. For a series of fewer than two returns the sum of squared
  deviations is zero and so is the quotient by \<open>n - 1\<close> (a quotient by zero is zero in
  HOL), so the standard deviation is zero and the ratio is the fallback value.
\<close>

definition sharpe_ratio :: "real list \<Rightarrow> real" where
  "sharpe_ratio rs = (if stdev rs = 0 then 0 else mean rs / stdev rs * sqrt 252)"

section \<open>Positions of a new strategy\<close>

lemma init_positions_fold:
  "foldl (\<lambda>m sym. m(sym \<mapsto> (0::real))) m0 syms k =
     (if k \<in> set syms then Some 0 else m0 k)"
  by (induction syms arbitrary: m0) auto

lemma positions_init:
  "positions (CtaTemplate_init name syms ty) k = (if k \<in> set syms then Some 0 else None)"
  by (simp add: CtaTemplate_init_def init_positions_fold)

section \<open>Applying trades\<close>

lemma on_trade_subscribed:
  assumes "positions s (vt_symbol_of t) = Some p"
  shows "on_trade s t =
           Inr (s\<lparr>positions := (positions s)(vt_symbol_of t \<mapsto> p + signed_volume t)\<rparr>)"
  using assms
  by (simp add: on_trade_def vt_symbol_of_def signed_volume_def positions_iadd_def
        positions_isub_def Let_def)

lemma on_trade_unsubscribed:
  assumes "positions s (vt_symbol_of t) = None"
  shows "on_trade s t = Inl (KeyError (vt_symbol_of t))"
  using assms
  by (simp add: on_trade_def vt_symbol_of_def positions_iadd_def positions_isub_def Let_def)

lemma signed_volume_fields:
  assumes "trade.direction t = trade.direction t'" and "trade.offset t = trade.offset t'"
    and "trade.volume t = trade.volume t'"
  shows "signed_volume t = signed_volume t'"
  using assms by (simp add: signed_volume_def)

lemma dom_on_trade:
  "on_trade s t = Inr s' \<Longrightarrow> dom (positions s') = dom (positions s)"
  by (cases "positions s (vt_symbol_of t)")
     (auto simp: on_trade_subscribed on_trade_unsubscribed split: if_splits)

text \<open>
  Replaying trades whose keys are all in the positions dictionary succeeds, and every
  position moves by the signed sum of its trades.
\<close>

lemma dispatch_trades_subscribed:
  assumes "\<forall>t \<in> set ts. vt_symbol_of t \<in> dom (positions s)"
  shows "\<exists>s'. dispatch_trades s ts = Inr s' \<and> dom (positions s') = dom (positions s) \<and>
           (\<forall>k. get_pos s' k = get_pos s k + signed_sum k ts)"
  using assms
proof (induction ts arbitrary: s)
  case Nil
  then show ?case by (simp add: signed_sum_def)
next
  case (Cons t ts)
  from Cons.prems obtain p where p: "positions s (vt_symbol_of t) = Some p" by auto
  define s1 where "s1 = s\<lparr>positions := (positions s)(vt_symbol_of t \<mapsto> p + signed_volume t)\<rparr>"
  have step: "on_trade s t = Inr s1" using p by (simp add: on_trade_subscribed s1_def)
  have d1: "dom (positions s1) = dom (positions s)" using p by (auto simp: s1_def)
  have "\<forall>t' \<in> set ts. vt_symbol_of t' \<in> dom (positions s1)"
    using Cons.prems d1 by simp
  from Cons.IH[OF this] obtain s' where
    s': "dispatch_trades s1 ts = Inr s'" "dom (positions s') = dom (positions s1)"
        "\<forall>k. get_pos s' k = get_pos s1 k + signed_sum k ts" by blast
  have g1: "get_pos s1 k = get_pos s k + (if k = vt_symbol_of t then signed_volume t else 0)" for k
    using p by (simp add: s1_def get_pos_def)
  have "get_pos s' k = get_pos s k + signed_sum k (t # ts)" for k
    using s'(3) g1[of k] by (simp add: signed_sum_def)
  then show ?case using step s'(1,2) d1 by simp
qed

lemma dispatch_trades_from_zero:
  assumes "\<forall>t \<in> set ts. vt_symbol_of t \<in> set syms"
  shows "\<exists>s'. dispatch_trades (CtaTemplate_init name syms ty) ts = Inr s' \<and>
           (\<forall>k. get_pos s' k = signed_sum k ts)"
proof -
  let ?s = "CtaTemplate_init name syms ty"
  have "dom (positions ?s) = set syms"
    by (auto simp: positions_init dom_def)
  with assms have "\<forall>t \<in> set ts. vt_symbol_of t \<in> dom (positions ?s)"
    by simp
  from dispatch_trades_subscribed [OF this] obtain s' where
    "dispatch_trades ?s ts = Inr s'" "\<forall>k. get_pos s' k = get_pos ?s k + signed_sum k ts"
    by blast
  moreover have "get_pos ?s k = 0" for k
    by (simp add: get_pos_def positions_init)
  ultimately show ?thesis by simp
qed

text \<open>
  Claim C1: every trade applied through \<^verbatim>\<open>on_trade\<close> moves the position of its symbol by
  \<open>+volume\<close> or \<open>-volume\<close> according to side and offset. For a key of the positions
  dictionary this is \<open>on_trade_subscribed\<close>, and \<open>signed_volume_fields\<close> says that only
  direction, offset and volume enter the delta. For a symbol that was not subscribed the
  call raises: a long/open trade of volume 1 on \<^verbatim>\<open>ETHUSDT.BINANCE\<close>, sent to a strategy
  subscribed to \<^verbatim>\<open>BTCUSDT.BINANCE\<close> only, ends in \<^verbatim>\<open>KeyError\<close> and the position, which
  \<^verbatim>\<open>get_pos\<close> reports as 0, does not move.
\<close>

theorem on_trade_unsubscribed_raises:
  "on_trade btc_strategy (mk_trade ''ETHUSDT'' ''long'' ''open'' 1)
     = Inl (KeyError ''ETHUSDT.BINANCE'')
   \<and> get_pos btc_strategy ''ETHUSDT.BINANCE'' = 0
   \<and> signed_volume (mk_trade ''ETHUSDT'' ''long'' ''open'' 1) = 1"
  by (simp add: on_trade_def btc_strategy_def mk_trade_def positions_init positions_iadd_def
        get_pos_def signed_volume_def)

text \<open>
  Claim C2: after any sequence of trades, starting from positions zero, \<^verbatim>\<open>get_pos\<close> of
  each symbol is the signed sum of that symbol's trade volumes. For sequences on
  subscribed symbols this is \<open>dispatch_trades_from_zero\<close>. The sequence made of the one
  trade above fails: the dispatch raises, \<^verbatim>\<open>get_pos\<close> stays at 0 and the signed sum is 1.
\<close>

theorem dispatch_unsubscribed_raises:
  "dispatch_trades btc_strategy [mk_trade ''ETHUSDT'' ''long'' ''open'' 1]
     = Inl (KeyError ''ETHUSDT.BINANCE'')
   \<and> get_pos btc_strategy ''ETHUSDT.BINANCE'' = 0
   \<and> signed_sum ''ETHUSDT.BINANCE'' [mk_trade ''ETHUSDT'' ''long'' ''open'' 1] = 1"
  by (simp add: on_trade_def btc_strategy_def mk_trade_def positions_init positions_iadd_def
        get_pos_def signed_sum_def signed_volume_def vt_symbol_of_def)

section \<open>Order calls\<close>

text \<open>
  Claim C3: while the trading flag is false, \<^verbatim>\<open>buy\<close> and \<^verbatim>\<open>sell\<close> return the empty
  order id, print nothing (\<^verbatim>\<open>_send_order\<close> is not reached, so no order is submitted)
  and leave the strategy as it was.
\<close>

theorem buy_sell_not_trading:
  "\<not> trading s \<Longrightarrow>
     buy now s vt pr vol lock = ([], s, []) \<and> sell now s vt pr vol lock = ([], s, [])"
  by (simp add: buy_def sell_def)

theorem buy_sell_not_trading_witness:
  "\<not> trading btc_strategy
   \<and> buy 0 btc_strategy ''BTCUSDT.BINANCE'' 50000 1 False = ([], btc_strategy, [])
   \<and> sell 0 btc_strategy ''BTCUSDT.BINANCE'' 50000 1 False = ([], btc_strategy, [])"
proof -
  have h: "\<not> trading btc_strategy"
    by (simp add: btc_strategy_def CtaTemplate_init_def)
  show ?thesis
    using h buy_sell_not_trading [OF h, of 0 "''BTCUSDT.BINANCE''" 50000 1 False] by simp
qed

text \<open>
  Claim C4: on a strategy of type \<^verbatim>\<open>"spot"\<close>, \<^verbatim>\<open>short\<close> and \<^verbatim>\<open>cover\<close> return the empty
  order id for every price and volume, whatever the trading flag; the strategy is
  unchanged and the only effect is the one log line.
\<close>

theorem short_cover_spot_rejected:
  "strategy_type s = ''spot'' \<Longrightarrow>
     short now s vt pr vol lock =
       ([], s, [[Lit ''['', Lit (strategy_name s), Lit ''] '',
                 Lit ''Short not supported for spot trading'']])
   \<and> cover now s vt pr vol lock =
       ([], s, [[Lit ''['', Lit (strategy_name s), Lit ''] '',
                 Lit ''Cover not supported for spot trading'']])"
  by (simp add: short_def cover_def write_log_def)

theorem short_cover_spot_rejected_witness:
  "strategy_type (btc_strategy\<lparr>trading := True\<rparr>) = ''spot''
   \<and> trading (btc_strategy\<lparr>trading := True\<rparr>)
   \<and> short 0 (btc_strategy\<lparr>trading := True\<rparr>) ''BTCUSDT.BINANCE'' 50000 1 False
       = ([], btc_strategy\<lparr>trading := True\<rparr>,
          [[Lit ''['', Lit ''S'', Lit ''] '', Lit ''Short not supported for spot trading'']])
   \<and> cover 0 (btc_strategy\<lparr>trading := True\<rparr>) ''BTCUSDT.BINANCE'' 50000 1 False
       = ([], btc_strategy\<lparr>trading := True\<rparr>,
          [[Lit ''['', Lit ''S'', Lit ''] '', Lit ''Cover not supported for spot trading'']])"
proof -
  have h: "strategy_type (btc_strategy\<lparr>trading := True\<rparr>) = ''spot''"
    by (simp add: btc_strategy_def CtaTemplate_init_def)
  have n: "strategy_name (btc_strategy\<lparr>trading := True\<rparr>) = ''S''"
    by (simp add: btc_strategy_def CtaTemplate_init_def)
  show ?thesis
    using h short_cover_spot_rejected [OF h, of 0 "''BTCUSDT.BINANCE''" 50000 1 False]
    by (simp add: n)
qed

text \<open>
  Claim C6: with trading enabled, \<^verbatim>\<open>sell\<close> on a spot strategy hands \<^verbatim>\<open>_send_order\<close>
  direction \<^verbatim>\<open>"short"\<close> and offset \<^verbatim>\<open>"open"\<close>, on a futures strategy offset
  \<^verbatim>\<open>"close"\<close>; and none of the four order calls of a spot strategy prints the line of
  an order with offset \<^verbatim>\<open>"close"\<close>.
\<close>

theorem sell_offset_by_strategy_type:
  "(trading s \<and> strategy_type s = ''spot'' \<longrightarrow>
      sell now s vt pr vol lock = send_order now s vt pr vol ''short'' ''open'' lock
    \<and> (\<forall>r \<in> {buy now s vt pr vol lock, sell now s vt pr vol lock,
              short now s vt pr vol lock, cover now s vt pr vol lock}.
         snd (snd r) \<noteq> snd (snd (send_order now' s vt' pr' vol' dir' ''close'' lock'))))
   \<and> (trading f \<and> strategy_type f = ''futures'' \<longrightarrow>
      sell now f vt pr vol lock = send_order now f vt pr vol ''short'' ''close'' lock)"
  by (simp add: buy_def sell_def short_def cover_def send_order_def write_log_def)

theorem sell_offset_by_strategy_type_witness:
  "trading spot_trading \<and> strategy_type spot_trading = ''spot''
   \<and> sell 0 spot_trading ''BTCUSDT.BINANCE'' 50000 1 False
       = ([Lit ''order_'', Flt 0], spot_trading,
          [[Lit ''['', Lit ''S'', Lit ''] '', Lit ''Send order: '', Lit ''BTCUSDT.BINANCE'',
            Lit '' '', Lit ''short'', Lit '' '', Lit ''open'', Lit '' @ '', Flt 50000,
            Lit '' x'', Flt 1]])
   \<and> snd (snd (sell 0 spot_trading ''BTCUSDT.BINANCE'' 50000 1 False))
       \<noteq> snd (snd (send_order 0 spot_trading ''BTCUSDT.BINANCE'' 50000 1 ''short'' ''close'' False))
   \<and> trading futures_trading \<and> strategy_type futures_trading = ''futures''
   \<and> sell 0 futures_trading ''BTCUSDT.BINANCE'' 50000 1 False
       = ([Lit ''order_'', Flt 0], futures_trading,
          [[Lit ''['', Lit ''F'', Lit ''] '', Lit ''Send order: '', Lit ''BTCUSDT.BINANCE'',
            Lit '' '', Lit ''short'', Lit '' '', Lit ''close'', Lit '' @ '', Flt 50000,
            Lit '' x'', Flt 1]])"
proof -
  have hs: "trading spot_trading \<and> strategy_type spot_trading = ''spot''"
    by (simp add: spot_trading_def CtaTemplate_init_def)
  have hf: "trading futures_trading \<and> strategy_type futures_trading = ''futures''"
    by (simp add: futures_trading_def CtaTemplate_init_def)
  have ns: "strategy_name spot_trading = ''S''"
    by (simp add: spot_trading_def CtaTemplate_init_def)
  have nf: "strategy_name futures_trading = ''F''"
    by (simp add: futures_trading_def CtaTemplate_init_def)
  show ?thesis
    using hs hf
      sell_offset_by_strategy_type [of spot_trading 0 "''BTCUSDT.BINANCE''" 50000 1 False 0
        "''BTCUSDT.BINANCE''" 50000 1 "''short''" False futures_trading]
    by (simp add: send_order_def write_log_def ns nf)
qed

section \<open>Lifecycle hooks and the trading flag\<close>

text \<open>
  Claim C5, as stated for every strategy instance, fails on the template itself: its
  \<^verbatim>\<open>on_start\<close> only writes a log line, so a new \<^verbatim>\<open>CtaTemplate\<close> still has the flag
  false after \<^verbatim>\<open>on_start\<close>.
\<close>

theorem template_on_start_keeps_flag:
  "\<not> trading (fst (on_start btc_strategy))"
  by (simp add: on_start_def btc_strategy_def CtaTemplate_init_def)

text \<open>
  Claim C5, amended: \<^verbatim>\<open>on_start\<close> of \<^verbatim>\<open>DoubleMaStrategy\<close> and of \<^verbatim>\<open>GridStrategy\<close> sets
  the trading flag to true and their \<^verbatim>\<open>on_stop\<close> sets it to false; the hooks of the
  template leave the flag as it is.
\<close>

theorem lifecycle_trading_flag:
  "trading (fst (DoubleMaStrategy_on_start d)) \<and> \<not> trading (fst (DoubleMaStrategy_on_stop d))
   \<and> trading (fst (GridStrategy_on_start g)) \<and> \<not> trading (fst (GridStrategy_on_stop g))
   \<and> trading (fst (on_start s)) = trading s \<and> trading (fst (on_stop s)) = trading s"
  by (simp add: DoubleMaStrategy_on_start_def DoubleMaStrategy_on_stop_def
        GridStrategy_on_start_def GridStrategy_on_stop_def on_start_def on_stop_def
        cancel_all_def Let_def split: prod.splits)

section \<open>The positions dictionary\<close>

text \<open>
  Claim C7: of the operations of the template, only \<^verbatim>\<open>on_trade\<close> changes the positions
  dictionary. Every other operation returns the strategy with the same dictionary
  (\<^verbatim>\<open>get_pos\<close> returns a number and no strategy at all), and \<^verbatim>\<open>on_trade\<close> does change it.
\<close>

theorem positions_frame:
  "positions (fst (on_init s)) = positions s \<and>
   positions (fst (on_start s)) = positions s \<and>
   positions (fst (on_stop s)) = positions s \<and>
   positions (fst (on_bar s b)) = positions s \<and>
   positions (fst (on_tick s tk)) = positions s \<and>
   positions (fst (on_order s ord)) = positions s \<and>
   positions (fst (snd (buy now s vt pr vol lock))) = positions s \<and>
   positions (fst (snd (sell now s vt pr vol lock))) = positions s \<and>
   positions (fst (snd (short now s vt pr vol lock))) = positions s \<and>
   positions (fst (snd (cover now s vt pr vol lock))) = positions s \<and>
   positions (fst (cancel_order s oid)) = positions s \<and>
   positions (fst (cancel_all s)) = positions s \<and>
   (\<exists>t s'. on_trade btc_strategy t = Inr s' \<and> positions s' \<noteq> positions btc_strategy)"
proof -
  define t where "t = mk_trade ''BTCUSDT'' ''long'' ''open'' 1"
  have sub: "positions btc_strategy (vt_symbol_of t) = Some 0"
    by (simp add: t_def btc_strategy_def positions_init vt_symbol_of_def mk_trade_def)
  have sv: "signed_volume t = 1"
    by (simp add: t_def signed_volume_def mk_trade_def)
  let ?s' = "btc_strategy\<lparr>positions :=
               (positions btc_strategy)(vt_symbol_of t \<mapsto> 0 + signed_volume t)\<rparr>"
  have run: "on_trade btc_strategy t = Inr ?s'"
    by (rule on_trade_subscribed [OF sub])
  have "positions ?s' (vt_symbol_of t) \<noteq> positions btc_strategy (vt_symbol_of t)"
    using sub sv by simp
  then have "positions ?s' \<noteq> positions btc_strategy"
    by metis
  with run have ex:
    "\<exists>t s'. on_trade btc_strategy t = Inr s' \<and> positions s' \<noteq> positions btc_strategy"
    by blast
  show ?thesis
    using ex
    by (simp add: on_init_def on_start_def on_stop_def on_bar_def on_tick_def on_order_def
        buy_def sell_def short_def cover_def send_order_def cancel_order_def cancel_all_def
        Let_def)
qed

text \<open>
  Claim C10: \<^verbatim>\<open>get_pos\<close> returns a number for every symbol string and cannot raise
  (it has no error result): 0 for a key that is not in the dictionary, and 0 for every
  symbol of a new strategy, whose subscribed symbols are all stored with position 0.
\<close>

theorem get_pos_total:
  "(positions s vt = None \<longrightarrow> get_pos s vt = 0) \<and>
   get_pos (CtaTemplate_init name syms ty) vt = 0 \<and>
   (\<forall>k \<in> set syms. positions (CtaTemplate_init name syms ty) k = Some 0)"
  by (simp add: get_pos_def positions_init)

theorem get_pos_total_witness:
  "positions btc_strategy ''ETHUSDT.BINANCE'' = None
   \<and> get_pos btc_strategy ''ETHUSDT.BINANCE'' = 0
   \<and> ''BTCUSDT.BINANCE'' \<in> set [''BTCUSDT.BINANCE'']
   \<and> positions btc_strategy ''BTCUSDT.BINANCE'' = Some 0"
  using get_pos_total [of btc_strategy "''ETHUSDT.BINANCE''" "''S''" "[''BTCUSDT.BINANCE'']" "''spot''"]
  by (simp add: btc_strategy_def positions_init)

section \<open>No look-ahead in the replay\<close>

lemma match_order_id [simp]: "bo_id (fst (match_order sl t bs ord)) = bo_id ord"
  by (simp add: match_order_def split: option.splits)

lemma match_order_created [simp]: "bo_created (fst (match_order sl t bs ord)) = bo_created ord"
  by (simp add: match_order_def split: option.splits)

lemma match_order_fill:
  "snd (match_order sl t bs ord) = Some f \<Longrightarrow> tr_order f = bo_id ord \<and> tr_timestamp f = t \<and> bo_status ord = Submitted"
  by (auto simp: match_order_def split: option.splits if_splits)

lemma matched_book_inv: "book_inv e \<Longrightarrow> book_inv (matched sl e d)"
  by (auto simp: book_inv_def matched_def Let_def comp_def)

lemma matched_created: "created_before t e \<Longrightarrow> created_before t (matched sl e d)"
  by (auto simp: created_before_def matched_def Let_def)

lemma matched_trades_inv:
  assumes "trades_inv e" and "created_before (dp_timestamp d) e"
  shows "trades_inv (matched sl e d)"
  unfolding trades_inv_def
proof
  fix f assume "f \<in> set (trade_log (matched sl e d))"
  then consider (old) "f \<in> set (trade_log e)"
    | (new) ord where "ord \<in> set (book e)" "snd (match_order sl (dp_timestamp d) (dp_bars d) ord) = Some f"
    by (auto simp: matched_def Let_def List.map_filter_def)
  then show "\<exists>ord \<in> set (book (matched sl e d)). bo_id ord = tr_order f \<and> bo_created ord < tr_timestamp f"
  proof cases
    case old
    with assms(1) obtain ord where o: "ord \<in> set (book e)" "bo_id ord = tr_order f" "bo_created ord < tr_timestamp f"
      by (auto simp: trades_inv_def)
    let ?o' = "fst (match_order sl (dp_timestamp d) (dp_bars d) ord)"
    have "?o' \<in> set (book (matched sl e d))" using o(1) by (simp add: matched_def Let_def)
    moreover have "bo_id ?o' = tr_order f" "bo_created ?o' < tr_timestamp f" using o by simp_all
    ultimately show ?thesis by blast
  next
    case new
    let ?o' = "fst (match_order sl (dp_timestamp d) (dp_bars d) ord)"
    have "?o' \<in> set (book (matched sl e d))" using new(1) by (simp add: matched_def Let_def)
    moreover from match_order_fill[OF new(2)] have "tr_order f = bo_id ord" "tr_timestamp f = dp_timestamp d" by simp_all
    moreover have "bo_created ord < dp_timestamp d" using assms(2) new(1) by (simp add: created_before_def)
    ultimately show ?thesis by (intro bexI[of _ ?o']) simp_all
  qed
qed

lemma submit_cases:
  "snd (submit t e r) = e \<or>
   snd (submit t e r) = e\<lparr>book := book e @
                 [\<lparr>bo_id = next_id e, bo_symbol = rq_symbol r, bo_side = rq_side r,
                   bo_offset = rq_offset r, bo_price = rq_price r, bo_volume = rq_volume r,
                   bo_filled = 0, bo_status = Submitted, bo_created = t\<rparr>],
              next_id := Suc (next_id e)\<rparr>"
  by (simp add: submit_def)

lemma submit_inv:
  assumes "book_inv e" "trades_inv e" "created_upto t e"
  shows "book_inv (snd (submit t e r)) \<and> trades_inv (snd (submit t e r)) \<and> created_upto t (snd (submit t e r))"
proof -
  let ?n = "\<lparr>bo_id = next_id e, bo_symbol = rq_symbol r, bo_side = rq_side r,
                   bo_offset = rq_offset r, bo_price = rq_price r, bo_volume = rq_volume r,
                   bo_filled = 0, bo_status = Submitted, bo_created = t\<rparr>"
  let ?e' = "e\<lparr>book := book e @ [?n], next_id := Suc (next_id e)\<rparr>"
  have fresh: "next_id e \<notin> bo_id ` set (book e)"
    using assms(1) by (auto simp: book_inv_def)
  have b: "book_inv ?e'"
    using assms(1) fresh by (auto simp: book_inv_def less_Suc_eq)
  have tr: "trades_inv ?e'"
    using assms(2) by (auto simp: trades_inv_def)
  have c: "created_upto t ?e'"
    using assms(3) by (auto simp: created_upto_def)
  from submit_cases[of t e r] show ?thesis
    using assms b tr c by auto
qed

lemma submit_all_inv:
  assumes "book_inv e" "trades_inv e" "created_upto t e"
  shows "book_inv (submit_all t e rs) \<and> trades_inv (submit_all t e rs) \<and> created_upto t (submit_all t e rs)"
  using assms unfolding submit_all_def
proof (induction rs arbitrary: e)
  case Nil then show ?case by simp
next
  case (Cons r rs)
  from submit_inv[OF Cons.prems, of r] show ?case by (simp add: Cons.IH)
qed

lemma step_inv:
  assumes "book_inv e" "trades_inv e" "created_before (dp_timestamp d) e"
  shows "book_inv (step sl e d) \<and> trades_inv (step sl e d) \<and> created_upto (dp_timestamp d) (step sl e d)"
proof -
  have "created_upto (dp_timestamp d) (matched sl e d)"
    using matched_created[OF assms(3), of sl d] by (force simp: created_before_def created_upto_def)
  with matched_book_inv[OF assms(1)] matched_trades_inv[OF assms(2,3)]
  show ?thesis unfolding step_def by (intro submit_all_inv)
qed

lemma replay_inv:
  assumes "sorted_wrt (<) (map dp_timestamp ds)" "book_inv e" "trades_inv e"
    and "\<forall>d \<in> set ds. created_before (dp_timestamp d) e"
  shows "book_inv (foldl (step sl) e ds) \<and> trades_inv (foldl (step sl) e ds)"
  using assms
proof (induction ds arbitrary: e)
  case Nil then show ?case by simp
next
  case (Cons d ds)
  have cb: "created_before (dp_timestamp d) e" using Cons.prems(4) by simp
  from step_inv[OF Cons.prems(2,3) cb, of sl]
  have i: "book_inv (step sl e d)" "trades_inv (step sl e d)" "created_upto (dp_timestamp d) (step sl e d)"
    by simp_all
  have "\<forall>d' \<in> set ds. created_before (dp_timestamp d') (step sl e d)"
    using i(3) Cons.prems(1) by (fastforce simp: created_upto_def created_before_def)
  moreover have "sorted_wrt (<) (map dp_timestamp ds)" using Cons.prems(1) by simp
  ultimately show ?case using Cons.IH[OF _ i(1,2)] by simp
qed

lemma cancel_pending_id [simp]: "bo_id (cancel_pending ord) = bo_id ord"
  by (simp add: cancel_pending_def)

lemma cancel_pending_created [simp]: "bo_created (cancel_pending ord) = bo_created ord"
  by (simp add: cancel_pending_def)

lemma force_cancel_inv:
  assumes "book_inv e" "trades_inv e"
  shows "book_inv (force_cancel e) \<and> trades_inv (force_cancel e)"
proof -
  have b: "book_inv (force_cancel e)"
    using assms(1) unfolding book_inv_def force_cancel_def by (simp add: comp_def)
  have "\<exists>ord \<in> set (book (force_cancel e)). bo_id ord = tr_order f \<and> bo_created ord < tr_timestamp f"
    if "f \<in> set (trade_log (force_cancel e))" for f
  proof -
    from that have "f \<in> set (trade_log e)" by (simp add: force_cancel_def)
    with assms(2) obtain ord where o: "ord \<in> set (book e)" "bo_id ord = tr_order f" "bo_created ord < tr_timestamp f"
      by (auto simp: trades_inv_def)
    have "cancel_pending ord \<in> set (book (force_cancel e))" using o(1) by (simp add: force_cancel_def)
    moreover have "bo_id (cancel_pending ord) = tr_order f" "bo_created (cancel_pending ord) < tr_timestamp f"
      using o by simp_all
    ultimately show ?thesis by blast
  qed
  then have "trades_inv (force_cancel e)" by (simp add: trades_inv_def)
  with b show ?thesis by simp
qed

lemma start_inv: "book_inv (start_engine spot) \<and> trades_inv (start_engine spot) \<and> created_before t (start_engine spot)"
  by (simp add: book_inv_def trades_inv_def created_before_def start_engine_def)

lemma book_inv_unique:
  assumes "book_inv e" "a \<in> set (book e)" "b \<in> set (book e)" "bo_id a = bo_id b"
  shows "a = b"
  using assms by (auto simp: book_inv_def distinct_map inj_on_def)

lemma demo_run: "run_backtest 0 True demo_feed = Inr demo_result"
  by (simp add: run_backtest_def demo_feed_def step_def matched_def submit_all_def
        start_engine_def submit_def match_order_def fill_price_def force_cancel_def
        cancel_pending_def mk_bar_def List.map_filter_def demo_result_def demo_order_def
        demo_trade_def)

text \<open>
  Claim C8: no trade is generated from the bar that created its order. In every run
  that the feed accepts, each trade of the log has exactly one originating order in the
  book, and the trade's timestamp is strictly greater than the order's creation
  timestamp.
\<close>

theorem no_look_ahead:
  assumes "run_backtest sl spot ds = Inr e" and "f \<in> set (trade_log e)"
  shows "\<exists>ord \<in> set (book e).
           bo_id ord = tr_order f \<and> bo_created ord < tr_timestamp f \<and>
           (\<forall>ord' \<in> set (book e). bo_id ord' = tr_order f \<longrightarrow> ord' = ord)"
proof -
  from assms(1) have srt: "sorted_wrt (<) (map dp_timestamp ds)"
    and e: "e = force_cancel (foldl (step sl) (start_engine spot) ds)"
    by (auto simp: run_backtest_def split: if_splits)
  have "book_inv (foldl (step sl) (start_engine spot) ds)
      \<and> trades_inv (foldl (step sl) (start_engine spot) ds)"
    using start_inv by (intro replay_inv[OF srt]) auto
  then have inv: "book_inv e" "trades_inv e"
    using force_cancel_inv unfolding e by blast+
  from inv(2) assms(2) obtain ord where
    o: "ord \<in> set (book e)" "bo_id ord = tr_order f" "bo_created ord < tr_timestamp f"
    by (auto simp: trades_inv_def)
  have "\<forall>ord' \<in> set (book e). bo_id ord' = tr_order f \<longrightarrow> ord' = ord"
    using book_inv_unique[OF inv(1) _ o(1)] o(2) by auto
  with o show ?thesis by blast
qed

theorem no_look_ahead_witness:
  "run_backtest 0 True demo_feed = Inr demo_result
   \<and> demo_trade \<in> set (trade_log demo_result)
   \<and> demo_order \<in> set (book demo_result)
   \<and> bo_id demo_order = tr_order demo_trade
   \<and> bo_created demo_order = 1 \<and> tr_timestamp demo_trade = 2
   \<and> bo_created demo_order < tr_timestamp demo_trade"
proof -
  have m: "demo_trade \<in> set (trade_log demo_result)"
    by (simp add: demo_result_def)
  from no_look_ahead [OF demo_run m] obtain ord where
    "ord \<in> set (book demo_result)" "bo_created ord < tr_timestamp demo_trade"
    by blast
  then have "bo_created demo_order < tr_timestamp demo_trade"
    by (simp add: demo_result_def)
  then show ?thesis
    using demo_run m by (simp add: demo_result_def demo_order_def demo_trade_def)
qed

section \<open>The Sharpe ratio of a return series\<close>

lemma mean_const:
  assumes "\<forall>x \<in> set xs. x = c" "xs \<noteq> []"
  shows "mean xs = c"
proof -
  have "xs = replicate (length xs) c"
    using assms(1) by (simp add: replicate_length_same)
  then have "sum_list xs = real (length xs) * c"
    by (metis sum_list_replicate)
  then show ?thesis using assms(2) by (simp add: mean_def)
qed

lemma sample_variance_const:
  assumes "\<forall>x \<in> set xs. x = c"
  shows "sample_variance xs = 0"
proof (cases "xs = []")
  case True
  then show ?thesis by (simp add: sample_variance_def)
next
  case False
  have "map (\<lambda>x. (x - mean xs)\<^sup>2) xs = map (\<lambda>x. 0) xs"
    using assms mean_const[OF assms False] by (intro map_cong) auto
  then have "(\<Sum>x\<leftarrow>xs. (x - mean xs)\<^sup>2) = 0"
    by (simp only: sum_list_0)
  then show ?thesis by (simp only: sample_variance_def div_0)
qed

lemma sample_variance_example: "sample_variance [1, 3] = 2"
  by (simp add: sample_variance_def mean_def)

lemma sharpe_ratio_short: "sharpe_ratio [] = 0 \<and> sharpe_ratio [x] = 0"
  by (simp add: sharpe_ratio_def stdev_def sample_variance_def mean_def)

text \<open>
  Claim C9: the Sharpe ratio is \<open>mean / stdev * sqrt 252\<close> with the sample standard
  deviation (divisor \<open>n - 1\<close>), and it is exactly zero, a value and not an error,
  whenever the daily return series has zero variance, as every series of equal returns
  has.
\<close>

theorem sharpe_ratio_formula:
  "sharpe_ratio rs =
     (if (\<Sum>r\<leftarrow>rs. (r - mean rs)\<^sup>2) / (real (length rs) - 1) = 0 then 0
      else mean rs / sqrt ((\<Sum>r\<leftarrow>rs. (r - mean rs)\<^sup>2) / (real (length rs) - 1))
             * sqrt 252)
   \<and> (sample_variance zs = 0 \<longrightarrow> sharpe_ratio zs = 0)
   \<and> sharpe_ratio (replicate n c) = 0"
proof -
  have "sample_variance (replicate n c) = 0"
    by (intro sample_variance_const[where c = c]) auto
  then show ?thesis
    by (auto simp: sharpe_ratio_def stdev_def sample_variance_def)
qed

theorem sharpe_ratio_formula_witness:
  "sharpe_ratio [1, 3] = 2 / sqrt 2 * sqrt 252
   \<and> sample_variance [5, 5, 5] = 0 \<and> sharpe_ratio [5, 5, 5] = 0
   \<and> sharpe_ratio (replicate 3 0) = 0"
proof -
  have v: "sample_variance [5, 5, 5] = 0"
    by (simp add: sample_variance_def mean_def)
  show ?thesis
    using sharpe_ratio_formula [of "[1, 3]" "[5, 5, 5]" 3 0] v
    by (simp add: mean_def)
qed

end
